theory Spec2Isabelle
  imports Main
begin

section \<open>The user table\<close>

text \<open>
  The controllers in \<^verbatim>\<open>src/controllers/user-controllers.js\<close> talk to one table,
  \<^verbatim>\<open>users\<close>, through \<^verbatim>\<open>pool.query\<close>. The statements name four columns:
  \<^verbatim>\<open>id_users\<close>, \<^verbatim>\<open>name\<close>, \<^verbatim>\<open>email\<close> and \<^verbatim>\<open>password\<close> (the bcrypt digest).
  The key is generated by the database; it is a number here, and the text forms
  that travel in the path and in the token (\<^verbatim>\<open>`${user.id_users}`\<close>) are identified
  with the number they denote. A column that received \<^verbatim>\<open>undefined\<close> holds NULL.
\<close>

record user_row =
  id_users :: nat
  name :: "string option"
  email :: "string option"
  password :: "string option"

text \<open>
  The pool: the rows of the table, the next value of the key sequence, and whether the
  next statement is going to be rejected (connection lost, constraint violated, ...):
  \<^verbatim>\<open>await pool.query(...)\<close> then throws.
\<close>

record pool =
  failing :: bool
  users :: "user_row list"
  serial :: nat

datatype thrown = StoreError

text \<open>\<^verbatim>\<open>SELECT * FROM users\<close>\<close>

definition select_all :: "pool \<Rightarrow> thrown + user_row list" where
  "select_all P = (if failing P then Inl StoreError else Inr (users P))"

text \<open>\<^verbatim>\<open>SELECT * FROM users WHERE email = $1\<close>\<close>

definition select_by_email :: "pool \<Rightarrow> string \<Rightarrow> thrown + user_row list" where
  "select_by_email P e =
     (if failing P then Inl StoreError
      else Inr (filter (\<lambda>r. email r = Some e) (users P)))"

text \<open>\<^verbatim>\<open>SELECT * FROM users WHERE id_users = $1\<close>\<close>

definition select_by_id :: "pool \<Rightarrow> nat \<Rightarrow> thrown + user_row list" where
  "select_by_id P i =
     (if failing P then Inl StoreError
      else Inr (filter (\<lambda>r. id_users r = i) (users P)))"

text \<open>\<^verbatim>\<open>INSERT INTO users (name, email, password) VALUES ($1, $2, $3) RETURNING *\<close>:
  one row is added and returned.\<close>

definition insert_user ::
  "pool \<Rightarrow> string option \<Rightarrow> string option \<Rightarrow> string \<Rightarrow> thrown + (user_row \<times> pool)" where
  "insert_user P n e h =
     (if failing P then Inl StoreError
      else
        (let r = \<lparr>id_users = serial P, name = n, email = e, password = Some h\<rparr>
         in Inr (r, P\<lparr>users := users P @ [r], serial := Suc (serial P)\<rparr>)))"

text \<open>\<^verbatim>\<open>DELETE FROM users WHERE id_users = $1 RETURNING *\<close>\<close>

definition delete_by_id :: "pool \<Rightarrow> nat \<Rightarrow> thrown + (user_row list \<times> pool)" where
  "delete_by_id P i =
     (if failing P then Inl StoreError
      else Inr (filter (\<lambda>r. id_users r = i) (users P),
                P\<lparr>users := filter (\<lambda>r. id_users r \<noteq> i) (users P)\<rparr>))"

text \<open>\<^verbatim>\<open>UPDATE users SET name = $1, email = $2, password = $3 WHERE id_users = $4 RETURNING *\<close>\<close>

definition set_columns :: "string \<Rightarrow> string \<Rightarrow> string \<Rightarrow> user_row \<Rightarrow> user_row" where
  "set_columns n e h r = r\<lparr>name := Some n, email := Some e, password := Some h\<rparr>"

definition update_by_id ::
  "pool \<Rightarrow> string \<Rightarrow> string \<Rightarrow> string \<Rightarrow> nat \<Rightarrow> thrown + (user_row list \<times> pool)" where
  "update_by_id P n e h i =
     (if failing P then Inl StoreError
      else Inr (map (set_columns n e h) (filter (\<lambda>r. id_users r = i) (users P)),
                P\<lparr>users := map (\<lambda>r. if id_users r = i then set_columns n e h r else r)
                               (users P)\<rparr>))"

text \<open>\<^verbatim>\<open>result.rows[0]\<close>: \<^verbatim>\<open>undefined\<close> when no row came back.\<close>

definition first_row :: "user_row list \<Rightarrow> user_row option" where
  "first_row rs = (case rs of [] \<Rightarrow> None | r # _ \<Rightarrow> Some r)"


section \<open>Tokens\<close>

text \<open>
  A token carries a protected header, the claims and a signature. The claim written by
  \<^verbatim>\<open>login\<close> is \<^verbatim>\<open>id_users\<close>; \<^verbatim>\<open>iat\<close> and \<^verbatim>\<open>exp\<close> are seconds since the epoch.
\<close>

type_synonym header = "(string \<times> string) list"

record claims =
  claim_id_users :: nat
  iat :: "nat option"
  exp :: "nat option"

record jws =
  protected :: header
  payload :: claims
  signature :: string

text \<open>
  The keyed hash of the signing input under a key. It is a parameter of the model:
  \<^verbatim>\<open>None\<close> when the runtime refuses the key.
\<close>

type_synonym mac = "string \<Rightarrow> header \<times> claims \<Rightarrow> string option"

datatype jose_error =
  JWSInvalid | KeyRejected | JWSSignatureVerificationFailed | JWTExpired

text \<open>The value of the \<^verbatim>\<open>authorization\<close> header: a string that is the compact form of a
  token, or a string that is not.\<close>

datatype credential = Unparsable string | Compact jws

primrec malformed :: "credential \<Rightarrow> bool" where
  "malformed (Unparsable s) = True"
| "malformed (Compact t) = False"

record jwt_builder =
  bld_header :: "header option"
  bld_payload :: claims

datatype timespan = Seconds nat | Minutes nat | Hours nat | Days nat

primrec secs :: "timespan \<Rightarrow> nat" where
  "secs (Seconds n) = n"
| "secs (Minutes n) = n * 60"
| "secs (Hours n) = n * 3600"
| "secs (Days n) = n * 86400"

text \<open>Modelled from the spec: the token builder \<^verbatim>\<open>SignJWT\<close> of the package \<^verbatim>\<open>jose\<close>,
  which is imported by the controllers and is not part of the sources. Section 4.2:
  the issuer builds the claim set, sets the header, sets issued-at to the current time,
  sets the expiration relative to it, and signs with the shared secret. Both setters
  read the clock; within one request the model reads it once.\<close>

definition SignJWT :: "nat \<Rightarrow> jwt_builder" where
  "SignJWT uid =
     \<lparr>bld_header = None, bld_payload = \<lparr>claim_id_users = uid, iat = None, exp = None\<rparr>\<rparr>"

definition setProtectedHeader :: "header \<Rightarrow> jwt_builder \<Rightarrow> jwt_builder" where
  "setProtectedHeader h b = b\<lparr>bld_header := Some h\<rparr>"

definition setIssuedAt :: "nat \<Rightarrow> jwt_builder \<Rightarrow> jwt_builder" where
  "setIssuedAt now b = b\<lparr>bld_payload := (bld_payload b)\<lparr>iat := Some now\<rparr>\<rparr>"

definition setExpirationTime :: "timespan \<Rightarrow> nat \<Rightarrow> jwt_builder \<Rightarrow> jwt_builder" where
  "setExpirationTime sp now b =
     b\<lparr>bld_payload := (bld_payload b)\<lparr>exp := Some (now + secs sp)\<rparr>\<rparr>"

definition sign :: "mac \<Rightarrow> string \<Rightarrow> jwt_builder \<Rightarrow> jose_error + jws" where
  "sign hm key b =
     (case bld_header b of
        None \<Rightarrow> Inl JWSInvalid
      | Some h \<Rightarrow>
          (case hm key (h, bld_payload b) of
             None \<Rightarrow> Inl KeyRejected
           | Some s \<Rightarrow> Inr \<lparr>protected = h, payload = bld_payload b, signature = s\<rparr>))"

text \<open>Modelled from the spec: \<^verbatim>\<open>jwtVerify\<close> of the package \<^verbatim>\<open>jose\<close>, not part of the
  sources. Section 4.2: it checks the signature against the shared secret and that the
  current time is within \<^verbatim>\<open>[issuedAt, expiration]\<close>, and signals an invalid token when
  the signature does not match, the token is malformed, or the time is outside the
  window.\<close>

definition signature_matches :: "mac \<Rightarrow> string \<Rightarrow> jws \<Rightarrow> bool" where
  "signature_matches hm key t = (hm key (protected t, payload t) = Some (signature t))"

definition within_window :: "nat \<Rightarrow> claims \<Rightarrow> bool" where
  "within_window now c =
     ((case iat c of None \<Rightarrow> True | Some i \<Rightarrow> i \<le> now) \<and>
      (case exp c of None \<Rightarrow> True | Some e \<Rightarrow> now \<le> e))"

definition jwtVerify :: "mac \<Rightarrow> credential \<Rightarrow> string \<Rightarrow> nat \<Rightarrow> jose_error + claims" where
  "jwtVerify hm a key now =
     (case a of
        Unparsable _ \<Rightarrow> Inl JWSInvalid
      | Compact t \<Rightarrow>
          if signature_matches hm key t
          then (if within_window now (payload t) then Inr (payload t) else Inl JWTExpired)
          else Inl JWSSignatureVerificationFailed)"


section \<open>Requests, responses and the environment\<close>

text \<open>
  The parts of an Express request the controllers read: the \<^verbatim>\<open>authorization\<close> header,
  the three body fields (absent, or a string), the path parameter \<^verbatim>\<open>id\<close>, and
  \<^verbatim>\<open>req.user\<close>, which a middleware may have set.
\<close>

record request =
  authorization :: "credential option"
  body_name :: "string option"
  body_email :: "string option"
  body_password :: "string option"
  params_id :: nat
  user :: "claims option"

datatype cell = JNull | JNum nat | JStr string | JJwt jws

type_synonym jsobject = "(string \<times> cell) list"

datatype body = Text string | Json_object jsobject | Json_array "jsobject list"

record response =
  status :: nat
  body :: body

text \<open>What a controller did with the request: it sent a response, or its promise was
  rejected before anything was sent. The accented letters of the messages are written
  without their accents.\<close>

datatype outcome = Responded response | Rejected

definition send :: "nat \<Rightarrow> string \<Rightarrow> outcome" where
  "send code msg = Responded \<lparr>status = code, body = Text msg\<rparr>"

definition json :: "nat \<Rightarrow> body \<Rightarrow> outcome" where
  "json code b = Responded \<lparr>status = code, body = b\<rparr>"

definition cell_of :: "string option \<Rightarrow> cell" where
  "cell_of v = (case v of None \<Rightarrow> JNull | Some s \<Rightarrow> JStr s)"

text \<open>A row as \<^verbatim>\<open>res.json\<close> writes it: every column.\<close>

definition row_object :: "user_row \<Rightarrow> jsobject" where
  "row_object r =
     [(''id_users'', JNum (id_users r)), (''name'', cell_of (name r)),
      (''email'', cell_of (email r)), (''password'', cell_of (password r))]"

text \<open>\<^verbatim>\<open>delete obj.key\<close>\<close>

definition delete_key :: "string \<Rightarrow> jsobject \<Rightarrow> jsobject" where
  "delete_key k obj = filter (\<lambda>kv. fst kv \<noteq> k) obj"

text \<open>Truthiness of a body field: \<^verbatim>\<open>undefined\<close> and the empty string are falsy.\<close>

definition truthy :: "string option \<Rightarrow> bool" where
  "truthy v = (case v of None \<Rightarrow> False | Some s \<Rightarrow> s \<noteq> [])"

text \<open>The string held by a body field that passed the truthiness test.\<close>

definition text_of :: "string option \<Rightarrow> string" where
  "text_of v = (case v of None \<Rightarrow> [] | Some s \<Rightarrow> s)"

text \<open>
  The environment of the process: \<^verbatim>\<open>process.env.secret\<close> (absent, or a string), the
  clock, the salt bcrypt draws for the next hash, and the three primitives of the
  imported packages as parameters: the keyed hash behind HS256, \<^verbatim>\<open>bcrypt.hash\<close> and
  \<^verbatim>\<open>bcrypt.compare\<close> (\<^verbatim>\<open>None\<close> when the call throws).
\<close>

record env =
  secret :: "string option"
  clock :: nat
  salt :: nat
  hmac :: mac
  bcrypt_hash :: "string option \<Rightarrow> nat \<Rightarrow> nat \<Rightarrow> string option"
  bcrypt_compare :: "string \<Rightarrow> string option \<Rightarrow> bool option"

text \<open>\<^verbatim>\<open>new TextEncoder().encode(secret)\<close>: the bytes of the string; \<^verbatim>\<open>undefined\<close> is
  encoded as the empty string.\<close>

definition encode :: "string option \<Rightarrow> string" where
  "encode s = (case s of None \<Rightarrow> [] | Some x \<Rightarrow> x)"


section \<open>The authentication middleware\<close>

datatype gate = Halt response | Next request

definition authenticateToken :: "env \<Rightarrow> request \<Rightarrow> gate" where
  "authenticateToken E req =
     (case authorization req of
        None \<Rightarrow> Halt \<lparr>status = 401, body = Text ''Token no proporcionado''\<rparr>
      | Some a \<Rightarrow>
          if a = Unparsable []
          then Halt \<lparr>status = 401, body = Text ''Token no proporcionado''\<rparr>
          else
            (case jwtVerify (hmac E) a (encode (secret E)) (clock E) of
               Inl err \<Rightarrow> Halt \<lparr>status = 401, body = Text ''Token invalido o expirado''\<rparr>
             | Inr p \<Rightarrow> Next (req\<lparr>user := Some p\<rparr>)))"


section \<open>The exported controllers\<close>

text \<open>
  Every export has the shape
  \<^verbatim>\<open>export const h = (authenticateToken, validateUser, async (req, res) => {...})\<close>.
  The parentheses hold a comma expression, whose value is its last operand: the exported
  controller is the \<^verbatim>\<open>async\<close> function alone, and neither \<^verbatim>\<open>authenticateToken\<close> (which
  the file does not export) nor \<^verbatim>\<open>validateUser\<close> is called by it.
\<close>

definition getUser :: "request \<Rightarrow> pool \<Rightarrow> outcome \<times> pool" where
  "getUser req P =
     (case select_all P of
        Inl err \<Rightarrow> (send 500 ''Error retrieving users'', P)
      | Inr rows \<Rightarrow> (json 200 (Json_array (map row_object rows)), P))"

definition createUser :: "env \<Rightarrow> request \<Rightarrow> pool \<Rightarrow> outcome \<times> pool" where
  "createUser E req P =
     (case bcrypt_hash E (body_password req) 10 (salt E) of
        None \<Rightarrow> (send 500 ''Error creating user'', P)
      | Some h \<Rightarrow>
          (case insert_user P (body_name req) (body_email req) h of
             Inl err \<Rightarrow> (send 500 ''Error creating user'', P)
           | Inr (r, P') \<Rightarrow> (json 201 (Json_object (row_object r)), P')))"

definition issue :: "env \<Rightarrow> user_row \<Rightarrow> jose_error + jws" where
  "issue E u =
     sign (hmac E) (encode (secret E))
       (setExpirationTime (Hours 7) (clock E)
         (setIssuedAt (clock E)
           (setProtectedHeader [(''alg'', ''HS256''), (''typ'', ''JWT'')]
             (SignJWT (id_users u)))))"

definition login_found :: "env \<Rightarrow> string \<Rightarrow> user_row \<Rightarrow> outcome" where
  "login_found E pw u =
     (case bcrypt_compare E pw (password u) of
        None \<Rightarrow> send 500 ''Error al iniciar sesion''
      | Some ok \<Rightarrow>
          if ok
          then (case issue E u of
                  Inl err \<Rightarrow> send 500 ''Error al iniciar sesion''
                | Inr t \<Rightarrow> json 200 (Json_object [(''jwt'', JJwt t)]))
          else send 401 ''Contrasena invalida'')"

definition login :: "env \<Rightarrow> request \<Rightarrow> pool \<Rightarrow> outcome \<times> pool" where
  "login E req P =
     (if truthy (body_email req) \<and> truthy (body_password req)
      then
        (case select_by_email P (text_of (body_email req)) of
           Inl err \<Rightarrow> (send 500 ''Error al iniciar sesion'', P)
         | Inr rows \<Rightarrow>
             (case first_row rows of
                None \<Rightarrow> (send 401 ''Email invalido'', P)
              | Some u \<Rightarrow> (login_found E (text_of (body_password req)) u, P)))
      else (send 400 ''Email y contrasena son requeridos'', P))"

definition getLogin :: "request \<Rightarrow> pool \<Rightarrow> outcome \<times> pool" where
  "getLogin req P =
     (case user req of
        None \<Rightarrow> (Rejected, P)
      | Some p \<Rightarrow>
          (case select_by_id P (claim_id_users p) of
             Inl err \<Rightarrow> (send 401 ''Token invalido o expirado'', P)
           | Inr rows \<Rightarrow>
               (case first_row rows of
                  None \<Rightarrow> (send 401 ''Usuario no encontrado'', P)
                | Some u \<Rightarrow>
                    (json 200 (Json_object (delete_key ''password'' (row_object u))), P))))"

definition deleteUser :: "request \<Rightarrow> pool \<Rightarrow> outcome \<times> pool" where
  "deleteUser req P =
     (case delete_by_id P (params_id req) of
        Inl err \<Rightarrow> (send 500 ''Error al eliminar el usuario'', P)
      | Inr (rows, P') \<Rightarrow>
          (case first_row rows of
             None \<Rightarrow> (send 404 ''Usuario no encontrado'', P')
           | Some u \<Rightarrow> (json 200 (Json_object (row_object u)), P')))"

definition actualizateUser :: "env \<Rightarrow> request \<Rightarrow> pool \<Rightarrow> outcome \<times> pool" where
  "actualizateUser E req P =
     (if truthy (body_name req) \<and> truthy (body_email req) \<and> truthy (body_password req)
      then
        (case bcrypt_hash E (body_password req) 10 (salt E) of
           None \<Rightarrow> (send 500 ''Error al actualizar el usuario'', P)
         | Some h \<Rightarrow>
             (case update_by_id P (text_of (body_name req)) (text_of (body_email req)) h
                     (params_id req) of
                Inl err \<Rightarrow> (send 500 ''Error al actualizar el usuario'', P)
              | Inr (rows, P') \<Rightarrow>
                  (case first_row rows of
                     None \<Rightarrow> (send 404 ''Usuario no encontrado'', P')
                   | Some u \<Rightarrow>
                       (json 200 (Json_object (delete_key ''password'' (row_object u))),
                        P'))))
      else (send 401 ''Faltan datos'', P))"


section \<open>A concrete table and environment\<close>

text \<open>
  One stored user, requests against her row, and an environment in which the controllers
  can be run. The three primitives of the environment are small stand-ins (the digest of
  \<open>p\<close> is \<open>h(p)\<close>, the keyed hash writes the key next to the user's number); the general
  theorems below hold for every environment.
\<close>

definition ana :: user_row where
  "ana = \<lparr>id_users = 1, name = Some ''Ana'', email = Some ''ana@x.com'',
          password = Some ''h(pw1)''\<rparr>"

definition pool_ana :: pool where
  "pool_ana = \<lparr>failing = False, users = [ana], serial = 2\<rparr>"

definition anonymous :: request where
  "anonymous = \<lparr>authorization = None, body_name = None, body_email = None,
                body_password = None, params_id = 1, user = None\<rparr>"

definition demo_mac :: mac where
  "demo_mac key inp = Some (key @ '':'' @ replicate (claim_id_users (snd inp)) CHR ''i'')"

definition demo_hash :: "string option \<Rightarrow> nat \<Rightarrow> nat \<Rightarrow> string option" where
  "demo_hash pw rounds s = (case pw of None \<Rightarrow> None | Some p \<Rightarrow> Some (''h('' @ p @ '')''))"

definition demo_compare :: "string \<Rightarrow> string option \<Rightarrow> bool option" where
  "demo_compare pw d = (case d of None \<Rightarrow> None | Some h \<Rightarrow> Some (h = ''h('' @ pw @ '')''))"

definition demo_env :: env where
  "demo_env = \<lparr>secret = Some ''k'', clock = 1000, salt = 7, hmac = demo_mac,
               bcrypt_hash = demo_hash, bcrypt_compare = demo_compare\<rparr>"

definition credentials :: "string \<Rightarrow> string \<Rightarrow> request" where
  "credentials e pw = anonymous\<lparr>body_email := Some e, body_password := Some pw\<rparr>"

definition ana_token :: jws where
  "ana_token =
     \<lparr>protected = [(''alg'', ''HS256''), (''typ'', ''JWT'')],
      payload = \<lparr>claim_id_users = 1, iat = Some 1000, exp = Some 26200\<rparr>,
      signature = ''k:i''\<rparr>"


section \<open>Lookups\<close>

lemma first_row_filter: "first_row (filter p rs) = find p rs"
  by (induction rs) (simp_all add: first_row_def)

lemma filter_after_delete: "filter (\<lambda>r. id_users r = i) (filter (\<lambda>r. id_users r \<noteq> i) rs) = []"
  by (induction rs) simp_all

lemmas store_defs = select_all_def select_by_email_def select_by_id_def insert_user_def
  delete_by_id_def update_by_id_def

lemmas demo_defs = ana_def pool_ana_def anonymous_def demo_mac_def demo_hash_def
  demo_compare_def demo_env_def credentials_def ana_token_def

lemmas reply_defs = send_def json_def row_object_def cell_of_def delete_key_def

lemmas jose_defs = SignJWT_def setProtectedHeader_def setIssuedAt_def setExpirationTime_def
  sign_def issue_def encode_def


section \<open>Password digests in responses\<close>

text \<open>C1: no response of a controller (list users, create user, login, get self, delete
  user, update user) carries the stored password digest. The controllers
  \<^verbatim>\<open>getLogin\<close> and \<^verbatim>\<open>actualizateUser\<close> run \<^verbatim>\<open>delete user.password\<close> before they answer;
  \<^verbatim>\<open>getUser\<close>, \<^verbatim>\<open>createUser\<close> and \<^verbatim>\<open>deleteUser\<close> send the rows as the database returned
  them. Listing the table that holds Ana's row sends her digest.\<close>

theorem getUser_sends_password_hash:
  "getUser anonymous pool_ana =
     (Responded \<lparr>status = 200,
        body = Json_array [[(''id_users'', JNum 1), (''name'', JStr ''Ana''),
                            (''email'', JStr ''ana@x.com''), (''password'', JStr ''h(pw1)'')]]\<rparr>,
      pool_ana)"
  by (simp add: getUser_def store_defs reply_defs demo_defs)

text \<open>The same holds of every created and every deleted row, and the two controllers that strip
  the column never send it.\<close>

lemma createUser_sends_password_hash:
  "bcrypt_hash E (body_password req) 10 (salt E) = Some h \<Longrightarrow> \<not> failing P \<Longrightarrow>
   \<exists>obj. fst (createUser E req P) = Responded \<lparr>status = 201, body = Json_object obj\<rparr> \<and>
         map_of obj ''password'' = Some (JStr h)"
  by (simp add: createUser_def store_defs reply_defs Let_def)

lemma deleteUser_sends_password_hash:
  "\<not> failing P \<Longrightarrow> find (\<lambda>r. id_users r = params_id req) (users P) = Some u \<Longrightarrow>
   \<exists>obj. fst (deleteUser req P) = Responded \<lparr>status = 200, body = Json_object obj\<rparr> \<and>
         map_of obj ''password'' = Some (cell_of (password u))"
  by (simp add: deleteUser_def store_defs first_row_filter send_def json_def row_object_def)

lemma getLogin_strips_password:
  "fst (getLogin req P) = Responded \<lparr>status = c, body = Json_object obj\<rparr> \<Longrightarrow>
   map_of obj ''password'' = None"
  by (auto simp add: getLogin_def store_defs reply_defs split: option.splits if_splits sum.splits)

lemma actualizateUser_strips_password:
  "fst (actualizateUser E req P) = Responded \<lparr>status = c, body = Json_object obj\<rparr> \<Longrightarrow>
   map_of obj ''password'' = None"
  by (auto simp add: actualizateUser_def store_defs reply_defs split: option.splits if_splits sum.splits)


section \<open>The authentication gate\<close>

text \<open>C2: a request to an operation that requires authentication (list users, get self,
  delete user, update user) without a token, or with an invalid one, is answered 401
  before the operation runs, and the table is not touched. The middleware does answer 401
  on its own, but the exported controllers do not contain it: a request without an
  \<^verbatim>\<open>authorization\<close> header reaches \<^verbatim>\<open>deleteUser\<close>, which deletes the row and answers 200.\<close>

theorem deleteUser_without_token:
  "authorization anonymous = None \<and>
   deleteUser anonymous pool_ana =
     (Responded \<lparr>status = 200, body = Json_object (row_object ana)\<rparr>, pool_ana\<lparr>users := []\<rparr>)"
  by (simp add: deleteUser_def store_defs first_row_def json_def demo_defs)

text \<open>What the middleware does when it is called: without a header it halts with 401, and it
  hands the request on only with the claims of a token that verified.\<close>

lemma authenticateToken_no_token:
  "authorization req = None \<Longrightarrow>
   authenticateToken E req = Halt \<lparr>status = 401, body = Text ''Token no proporcionado''\<rparr>"
  by (simp add: authenticateToken_def)

lemma authenticateToken_halts_or_verifies:
  "authenticateToken E req = Next req' \<Longrightarrow>
   \<exists>a p. authorization req = Some a \<and>
     jwtVerify (hmac E) a (encode (secret E)) (clock E) = Inr p \<and> req' = req\<lparr>user := Some p\<rparr>"
  by (auto simp add: authenticateToken_def split: option.splits if_splits sum.splits)

lemma jwtVerify_fails_iff:
  "(\<exists>err. jwtVerify hm a key now = Inl err) \<longleftrightarrow>
   (malformed a \<or>
    (\<exists>t. a = Compact t \<and>
       (hm key (protected t, payload t) \<noteq> Some (signature t) \<or>
        (\<exists>i. iat (payload t) = Some i \<and> now < i) \<or>
        (\<exists>x. exp (payload t) = Some x \<and> x < now))))"
  by (cases a)
    (auto simp add: jwtVerify_def signature_matches_def within_window_def
      split: option.splits)

lemma jwtVerify_claims:
  "jwtVerify hm a key now = Inr p \<Longrightarrow> \<exists>t. a = Compact t \<and> p = payload t"
  by (cases a) (auto simp add: jwtVerify_def split: if_splits)

lemma jwtVerify_total:
  "(\<exists>err. jwtVerify hm a key now = Inl err) \<or>
   (\<exists>t. a = Compact t \<and> jwtVerify hm a key now = Inr (payload t))"
  by (cases a) (auto simp add: jwtVerify_def)

lemma authenticateToken_invalid:
  "authorization req = Some a \<Longrightarrow> a \<noteq> Unparsable [] \<Longrightarrow>
   jwtVerify (hmac E) a (encode (secret E)) (clock E) = Inl err \<Longrightarrow>
   authenticateToken E req = Halt \<lparr>status = 401, body = Text ''Token invalido o expirado''\<rparr>"
  by (simp add: authenticateToken_def)

lemma authenticateToken_valid:
  "authorization req = Some a \<Longrightarrow> a \<noteq> Unparsable [] \<Longrightarrow>
   jwtVerify (hmac E) a (encode (secret E)) (clock E) = Inr p \<Longrightarrow>
   authenticateToken E req = Next (req\<lparr>user := Some p\<rparr>)"
  by (simp add: authenticateToken_def)

text \<open>C7: verification signals an invalid token exactly when the token is malformed, the
  signature does not match the shared secret, or the current time is outside the
  validity window (before issued-at or after the expiration); otherwise it yields the
  claims of the token. The middleware, given a non-empty \<^verbatim>\<open>authorization\<close> header, answers
  each of these failures with the same response, status 401 and one fixed message, so
  that an expired token and a tampered one cannot be told apart by the caller, and it
  answers so in no other case: a token that verifies is handed to the next handler with
  its claims in \<^verbatim>\<open>req.user\<close>.\<close>

theorem invalid_tokens_are_refused_alike:
  "((\<exists>err. jwtVerify (hmac E) a (encode (secret E)) (clock E) = Inl err) \<longleftrightarrow>
      (malformed a \<or>
       (\<exists>t. a = Compact t \<and>
          (hmac E (encode (secret E)) (protected t, payload t) \<noteq> Some (signature t) \<or>
           (\<exists>i. iat (payload t) = Some i \<and> clock E < i) \<or>
           (\<exists>x. exp (payload t) = Some x \<and> x < clock E))))) \<and>
   (authorization req = Some a \<and> a \<noteq> Unparsable [] \<longrightarrow>
      (if malformed a \<or>
          (\<exists>t. a = Compact t \<and>
             (hmac E (encode (secret E)) (protected t, payload t) \<noteq> Some (signature t) \<or>
              (\<exists>i. iat (payload t) = Some i \<and> clock E < i) \<or>
              (\<exists>x. exp (payload t) = Some x \<and> x < clock E)))
       then authenticateToken E req =
              Halt \<lparr>status = 401, body = Text ''Token invalido o expirado''\<rparr>
       else (\<exists>t. a = Compact t \<and>
               jwtVerify (hmac E) a (encode (secret E)) (clock E) = Inr (payload t) \<and>
               authenticateToken E req = Next (req\<lparr>user := Some (payload t)\<rparr>))))"
proof (intro conjI impI)
  show "(\<exists>err. jwtVerify (hmac E) a (encode (secret E)) (clock E) = Inl err) \<longleftrightarrow>
      (malformed a \<or>
       (\<exists>t. a = Compact t \<and>
          (hmac E (encode (secret E)) (protected t, payload t) \<noteq> Some (signature t) \<or>
           (\<exists>i. iat (payload t) = Some i \<and> clock E < i) \<or>
           (\<exists>x. exp (payload t) = Some x \<and> x < clock E))))"
    by (rule jwtVerify_fails_iff)
next
  let ?inv = "malformed a \<or>
          (\<exists>t. a = Compact t \<and>
             (hmac E (encode (secret E)) (protected t, payload t) \<noteq> Some (signature t) \<or>
              (\<exists>i. iat (payload t) = Some i \<and> clock E < i) \<or>
              (\<exists>x. exp (payload t) = Some x \<and> x < clock E)))"
  have fails: "(\<exists>err. jwtVerify (hmac E) a (encode (secret E)) (clock E) = Inl err) \<longleftrightarrow> ?inv"
    by (rule jwtVerify_fails_iff)
  assume h: "authorization req = Some a \<and> a \<noteq> Unparsable []"
  show "if ?inv
       then authenticateToken E req =
              Halt \<lparr>status = 401, body = Text ''Token invalido o expirado''\<rparr>
       else (\<exists>t. a = Compact t \<and>
               jwtVerify (hmac E) a (encode (secret E)) (clock E) = Inr (payload t) \<and>
               authenticateToken E req = Next (req\<lparr>user := Some (payload t)\<rparr>))"
  proof (cases ?inv)
    case True
    with fails obtain err where "jwtVerify (hmac E) a (encode (secret E)) (clock E) = Inl err"
      by blast
    with h have "authenticateToken E req =
        Halt \<lparr>status = 401, body = Text ''Token invalido o expirado''\<rparr>"
      by (simp add: authenticateToken_invalid)
    with True show ?thesis
      by (simp only: if_True)
  next
    case False
    with fails have "\<not> (\<exists>err. jwtVerify (hmac E) a (encode (secret E)) (clock E) = Inl err)"
      by blast
    with jwtVerify_total [of "hmac E" a "encode (secret E)" "clock E"]
    obtain t where t: "a = Compact t"
        "jwtVerify (hmac E) a (encode (secret E)) (clock E) = Inr (payload t)"
      by blast
    with h have "authenticateToken E req = Next (req\<lparr>user := Some (payload t)\<rparr>)"
      by (simp add: authenticateToken_valid)
    with t have "\<exists>t. a = Compact t \<and>
               jwtVerify (hmac E) a (encode (secret E)) (clock E) = Inr (payload t) \<and>
               authenticateToken E req = Next (req\<lparr>user := Some (payload t)\<rparr>)"
      by blast
    with False show ?thesis
      by (simp only: if_False)
  qed
qed

theorem invalid_tokens_are_refused_alike_witness:
  "authenticateToken (demo_env\<lparr>clock := 26201\<rparr>)
     (anonymous\<lparr>authorization := Some (Compact ana_token)\<rparr>) =
     Halt \<lparr>status = 401, body = Text ''Token invalido o expirado''\<rparr> \<and>
   authenticateToken (demo_env\<lparr>clock := 999\<rparr>)
     (anonymous\<lparr>authorization := Some (Compact ana_token)\<rparr>) =
     Halt \<lparr>status = 401, body = Text ''Token invalido o expirado''\<rparr> \<and>
   authenticateToken demo_env
     (anonymous\<lparr>authorization := Some (Compact (ana_token\<lparr>signature := ''x''\<rparr>))\<rparr>) =
     Halt \<lparr>status = 401, body = Text ''Token invalido o expirado''\<rparr> \<and>
   authenticateToken demo_env (anonymous\<lparr>authorization := Some (Unparsable ''abc'')\<rparr>) =
     Halt \<lparr>status = 401, body = Text ''Token invalido o expirado''\<rparr> \<and>
   authenticateToken (demo_env\<lparr>clock := 26200\<rparr>)
     (anonymous\<lparr>authorization := Some (Compact ana_token)\<rparr>) =
     Next (anonymous\<lparr>authorization := Some (Compact ana_token),
                     user := Some (payload ana_token)\<rparr>)"
proof -
  have "authenticateToken (demo_env\<lparr>clock := 26201\<rparr>)
          (anonymous\<lparr>authorization := Some (Compact ana_token)\<rparr>) =
        Halt \<lparr>status = 401, body = Text ''Token invalido o expirado''\<rparr>"
    using invalid_tokens_are_refused_alike
        [of "demo_env\<lparr>clock := 26201\<rparr>" "Compact ana_token"
            "anonymous\<lparr>authorization := Some (Compact ana_token)\<rparr>"]
    by (simp add: encode_def demo_defs)
  moreover have "authenticateToken (demo_env\<lparr>clock := 999\<rparr>)
          (anonymous\<lparr>authorization := Some (Compact ana_token)\<rparr>) =
        Halt \<lparr>status = 401, body = Text ''Token invalido o expirado''\<rparr>"
    using invalid_tokens_are_refused_alike
        [of "demo_env\<lparr>clock := 999\<rparr>" "Compact ana_token"
            "anonymous\<lparr>authorization := Some (Compact ana_token)\<rparr>"]
    by (simp add: encode_def demo_defs)
  moreover have "authenticateToken demo_env
          (anonymous\<lparr>authorization := Some (Compact (ana_token\<lparr>signature := ''x''\<rparr>))\<rparr>) =
        Halt \<lparr>status = 401, body = Text ''Token invalido o expirado''\<rparr>"
    using invalid_tokens_are_refused_alike
        [of demo_env "Compact (ana_token\<lparr>signature := ''x''\<rparr>)"
            "anonymous\<lparr>authorization := Some (Compact (ana_token\<lparr>signature := ''x''\<rparr>))\<rparr>"]
    by (simp add: encode_def demo_defs)
  moreover have "authenticateToken demo_env
          (anonymous\<lparr>authorization := Some (Unparsable ''abc'')\<rparr>) =
        Halt \<lparr>status = 401, body = Text ''Token invalido o expirado''\<rparr>"
    using invalid_tokens_are_refused_alike
        [of demo_env "Unparsable ''abc''"
            "anonymous\<lparr>authorization := Some (Unparsable ''abc'')\<rparr>"]
    by simp
  moreover have "authenticateToken (demo_env\<lparr>clock := 26200\<rparr>)
          (anonymous\<lparr>authorization := Some (Compact ana_token)\<rparr>) =
        Next (anonymous\<lparr>authorization := Some (Compact ana_token),
                        user := Some (payload ana_token)\<rparr>)"
    using invalid_tokens_are_refused_alike
        [of "demo_env\<lparr>clock := 26200\<rparr>" "Compact ana_token"
            "anonymous\<lparr>authorization := Some (Compact ana_token)\<rparr>"]
    by (simp add: encode_def demo_defs)
  ultimately show ?thesis
    by simp
qed


section \<open>Store failures\<close>

text \<open>C4: in every controller a failure of the store during the operation is answered with
  status 500 and a short generic message. The \<^verbatim>\<open>catch\<close> block of \<^verbatim>\<open>getLogin\<close> answers 401
  with the message of an invalid token instead: here the request carries verified claims
  and the statement fails.\<close>

theorem getLogin_store_failure:
  "getLogin (anonymous\<lparr>user := Some (payload ana_token)\<rparr>) (pool_ana\<lparr>failing := True\<rparr>) =
     (Responded \<lparr>status = 401, body = Text ''Token invalido o expirado''\<rparr>,
      pool_ana\<lparr>failing := True\<rparr>)"
  by (simp add: getLogin_def store_defs send_def demo_defs)

text \<open>The other five controllers answer a failing store with 500.\<close>

lemma store_failure_elsewhere:
  assumes "failing P"
  shows "getUser req P = (send 500 ''Error retrieving users'', P)"
    and "createUser E req P = (send 500 ''Error creating user'', P)"
    and "truthy (body_email req) \<and> truthy (body_password req) \<Longrightarrow>
         login E req P = (send 500 ''Error al iniciar sesion'', P)"
    and "deleteUser req P = (send 500 ''Error al eliminar el usuario'', P)"
    and "truthy (body_name req) \<and> truthy (body_email req) \<and> truthy (body_password req) \<Longrightarrow>
         actualizateUser E req P = (send 500 ''Error al actualizar el usuario'', P)"
  using assms
  by (simp_all add: getUser_def createUser_def login_def deleteUser_def actualizateUser_def
      store_defs split: option.splits)


section \<open>Login\<close>





lemma issue_fields:
  "issue E u = Inr t \<Longrightarrow>
   claim_id_users (payload t) = id_users u \<and>
   protected t = [(''alg'', ''HS256''), (''typ'', ''JWT'')] \<and>
   iat (payload t) = Some (clock E) \<and>
   exp (payload t) = Some (clock E + 7 * 3600) \<and>
   hmac E (encode (secret E)) (protected t, payload t) = Some (signature t)"
  by (auto simp add: issue_def sign_def SignJWT_def setProtectedHeader_def setIssuedAt_def
      setExpirationTime_def split: option.splits)

lemma login_ok_issues:
  "login E req P = (Responded r, P') \<Longrightarrow> status r = 200 \<Longrightarrow>
   \<exists>u t. find (\<lambda>x. email x = body_email req) (users P) = Some u \<and>
     bcrypt_compare E (text_of (body_password req)) (password u) = Some True \<and>
     issue E u = Inr t \<and> body r = Json_object [(''jwt'', JJwt t)]"
  by (auto simp add: login_def login_found_def truthy_def text_of_def select_by_email_def
      first_row_filter send_def json_def split: option.splits if_splits sum.splits)

text \<open>C8: the token of a successful login carries the identifier of the authenticated user
  as its claim, the protected header \<^verbatim>\<open>{alg: HS256, typ: JWT}\<close>, the current time as
  issued-at, issued-at plus seven hours as expiration, and a signature made with the
  shared secret.\<close>

theorem login_token:
  "login E req P = (Responded r, P') \<Longrightarrow> status r = 200 \<Longrightarrow>
   \<exists>u t. find (\<lambda>x. email x = body_email req) (users P) = Some u \<and>
     bcrypt_compare E (text_of (body_password req)) (password u) = Some True \<and>
     body r = Json_object [(''jwt'', JJwt t)] \<and>
     claim_id_users (payload t) = id_users u \<and>
     protected t = [(''alg'', ''HS256''), (''typ'', ''JWT'')] \<and>
     iat (payload t) = Some (clock E) \<and>
     exp (payload t) = Some (clock E + 7 * 3600) \<and>
     hmac E (encode (secret E)) (protected t, payload t) = Some (signature t)"
proof -
  assume "login E req P = (Responded r, P')" and "status r = 200"
  then obtain u t where
    u: "find (\<lambda>x. email x = body_email req) (users P) = Some u"
      "bcrypt_compare E (text_of (body_password req)) (password u) = Some True"
    and t: "issue E u = Inr t" "body r = Json_object [(''jwt'', JJwt t)]"
    using login_ok_issues by blast
  from t(1) have "claim_id_users (payload t) = id_users u \<and>
     protected t = [(''alg'', ''HS256''), (''typ'', ''JWT'')] \<and>
     iat (payload t) = Some (clock E) \<and>
     exp (payload t) = Some (clock E + 7 * 3600) \<and>
     hmac E (encode (secret E)) (protected t, payload t) = Some (signature t)"
    by (rule issue_fields)
  with u t(2) show ?thesis by blast
qed

theorem login_token_witness:
  "login demo_env (credentials ''ana@x.com'' ''pw1'') pool_ana =
     (Responded \<lparr>status = 200, body = Json_object [(''jwt'', JJwt ana_token)]\<rparr>, pool_ana) \<and>
   claim_id_users (payload ana_token) = id_users ana \<and>
   protected ana_token = [(''alg'', ''HS256''), (''typ'', ''JWT'')] \<and>
   iat (payload ana_token) = Some (clock demo_env) \<and>
   exp (payload ana_token) = Some (clock demo_env + 7 * 3600) \<and>
   hmac demo_env (encode (secret demo_env)) (protected ana_token, payload ana_token) =
     Some (signature ana_token)"
proof -
  have run: "login demo_env (credentials ''ana@x.com'' ''pw1'') pool_ana =
     (Responded \<lparr>status = 200, body = Json_object [(''jwt'', JJwt ana_token)]\<rparr>, pool_ana)"
    by (simp add: login_def login_found_def truthy_def text_of_def select_by_email_def
        first_row_def json_def jose_defs demo_defs)
  have "status \<lparr>status = 200, body = Json_object [(''jwt'', JJwt ana_token)]\<rparr> = 200"
    by simp
  from login_token [OF run this] obtain u t where
    "find (\<lambda>x. email x = body_email (credentials ''ana@x.com'' ''pw1'')) (users pool_ana) = Some u"
    "body \<lparr>status = 200, body = Json_object [(''jwt'', JJwt ana_token)]\<rparr> =
       Json_object [(''jwt'', JJwt t)]"
    "claim_id_users (payload t) = id_users u"
    "protected t = [(''alg'', ''HS256''), (''typ'', ''JWT'')]"
    "iat (payload t) = Some (clock demo_env)"
    "exp (payload t) = Some (clock demo_env + 7 * 3600)"
    "hmac demo_env (encode (secret demo_env)) (protected t, payload t) = Some (signature t)"
    by blast
  moreover from this(1) have "u = ana"
    by (simp add: demo_defs)
  moreover from calculation(2) have "t = ana_token"
    by simp
  ultimately show ?thesis
    using run by simp
qed

text \<open>Without \<^verbatim>\<open>process.env.secret\<close> the controllers run the same calls with the empty key:
  nothing in them looks at the secret before it is encoded.\<close>

lemma issue_without_secret:
  "secret E = None \<Longrightarrow>
   issue E u =
     sign (hmac E) []
       (setExpirationTime (Hours 7) (clock E)
         (setIssuedAt (clock E)
           (setProtectedHeader [(''alg'', ''HS256''), (''typ'', ''JWT'')]
             (SignJWT (id_users u)))))"
  by (simp add: issue_def encode_def)


section \<open>Update and delete\<close>

text \<open>C6: an update request in which the name, the email or the password is missing is
  answered 401, and the table is left as it was.\<close>

theorem actualizateUser_missing_field:
  "body_name req = None \<or> body_email req = None \<or> body_password req = None \<Longrightarrow>
   actualizateUser E req P = (send 401 ''Faltan datos'', P)"
  by (auto simp add: actualizateUser_def truthy_def)

theorem actualizateUser_missing_field_witness:
  "body_password (anonymous\<lparr>body_name := Some ''Bob'', body_email := Some ''bob@x.com''\<rparr>) = None \<and>
   actualizateUser demo_env (anonymous\<lparr>body_name := Some ''Bob'', body_email := Some ''bob@x.com''\<rparr>)
     pool_ana =
     (Responded \<lparr>status = 401, body = Text ''Faltan datos''\<rparr>, pool_ana)"
proof -
  have h: "body_password (anonymous\<lparr>body_name := Some ''Bob'', body_email := Some ''bob@x.com''\<rparr>) = None"
    by (simp add: anonymous_def)
  show ?thesis
    using h actualizateUser_missing_field
      [of "anonymous\<lparr>body_name := Some ''Bob'', body_email := Some ''bob@x.com''\<rparr>" demo_env pool_ana]
    by (simp add: send_def)
qed

lemma deleteUser_looks_up:
  "\<not> failing P \<Longrightarrow>
   deleteUser req P =
     ((case find (\<lambda>r. id_users r = params_id req) (users P) of
         None \<Rightarrow> send 404 ''Usuario no encontrado''
       | Some u \<Rightarrow> json 200 (Json_object (row_object u))),
      P\<lparr>users := filter (\<lambda>r. id_users r \<noteq> params_id req) (users P)\<rparr>)"
  by (simp add: deleteUser_def delete_by_id_def first_row_filter split: option.splits)

lemma getLogin_no_row:
  "\<not> failing P \<Longrightarrow> user req = Some p \<Longrightarrow> filter (\<lambda>r. id_users r = claim_id_users p) (users P) = [] \<Longrightarrow>
   getLogin req P = (send 401 ''Usuario no encontrado'', P)"
  by (simp add: getLogin_def select_by_id_def first_row_def)

text \<open>C9: a delete request for an id that no row has is answered 404; for an id that a row
  has it is answered 200 with the deleted row, and a later fetch of that id finds no
  user: the lookup by id returns no row, and \<^verbatim>\<open>getLogin\<close> for that id answers that the user
  was not found. The store executes the statement.\<close>

theorem deleteUser_responses:
  "\<not> failing P \<Longrightarrow>
   (find (\<lambda>r. id_users r = params_id req) (users P) = None \<longrightarrow>
      fst (deleteUser req P) = send 404 ''Usuario no encontrado'') \<and>
   (find (\<lambda>r. id_users r = params_id req) (users P) = Some u \<longrightarrow>
      fst (deleteUser req P) = json 200 (Json_object (row_object u)) \<and>
      select_by_id (snd (deleteUser req P)) (params_id req) = Inr [] \<and>
      fst (getLogin (req\<lparr>user := Some \<lparr>claim_id_users = params_id req, iat = i, exp = x\<rparr>\<rparr>)
             (snd (deleteUser req P))) = send 401 ''Usuario no encontrado'')"
  by (simp add: deleteUser_looks_up getLogin_no_row select_by_id_def filter_after_delete)

theorem deleteUser_responses_witness:
  "fst (deleteUser (anonymous\<lparr>params_id := 5\<rparr>) pool_ana) =
     Responded \<lparr>status = 404, body = Text ''Usuario no encontrado''\<rparr> \<and>
   fst (deleteUser anonymous pool_ana) =
     Responded \<lparr>status = 200, body = Json_object (row_object ana)\<rparr> \<and>
   select_by_id (snd (deleteUser anonymous pool_ana)) 1 = Inr []"
proof -
  have up: "\<not> failing pool_ana"
    by (simp add: pool_ana_def)
  have none: "find (\<lambda>r. id_users r = params_id (anonymous\<lparr>params_id := 5\<rparr>)) (users pool_ana) = None"
    by (simp add: pool_ana_def ana_def)
  have some: "find (\<lambda>r. id_users r = params_id anonymous) (users pool_ana) = Some ana"
    by (simp add: pool_ana_def ana_def anonymous_def)
  have one: "params_id anonymous = 1"
    by (simp add: anonymous_def)
  show ?thesis
    using deleteUser_responses [OF up, of "anonymous\<lparr>params_id := 5\<rparr>"]
      deleteUser_responses [OF up, of anonymous ana] none some one
    by (simp add: send_def json_def)
qed

end
